theory Spec2Isabelle
  imports Main
begin

section \<open>JavaScript values\<close>

text \<open>
  A JavaScript string is the list of its UTF-16 code units, each a natural number;
  \<open>lit\<close> gives the string with a given ASCII text.
\<close>

type_synonym jstring = "nat list"

definition lit :: "string \<Rightarrow> jstring" where
  "lit s = map of_char s"

text \<open>
  The values that reach the two classes are JSON values: request bodies parsed by the
  API layer and the parsed contents of the storage file. Numbers are the integers that
  JavaScript represents exactly; an object is a finite map from property names to values
  (property order is not observable through the operations modelled here). Where a
  JavaScript expression can be \<^verbatim>\<open>undefined\<close> its model has type \<open>json option\<close> and
  \<open>None\<close> is \<^verbatim>\<open>undefined\<close>.
\<close>

datatype json =
    JNull
  | JBool bool
  | JNum int
  | JStr jstring
  | JArr "json list"
  | JObj "jstring \<Rightarrow> json option"

text \<open>What a \<^verbatim>\<open>throw\<close> carries: the constructor of the error and its \<^verbatim>\<open>message\<close>.\<close>

datatype error = Error jstring | TypeError jstring | SyntaxError jstring

fun message :: "error \<Rightarrow> jstring" where
  "message (Error m) = m"
| "message (TypeError m) = m"
| "message (SyntaxError m) = m"

text \<open>
  The result of \<^verbatim>\<open>parseInt\<close>: \<^verbatim>\<open>NaN\<close>, an integer that is a double, or an
  infinity. Zero and negative zero are the same number here, as they are for
  \<^verbatim>\<open>===\<close>.
\<close>

datatype number = NaN | Num int | PosInfinity | NegInfinity

subsection \<open>Object spread\<close>




subsection \<open>Property access and strict equality\<close>

text \<open>
  \<^verbatim>\<open>d.id\<close>: reading a property of \<^verbatim>\<open>null\<close> throws a TypeError; an object yields the
  property or \<^verbatim>\<open>undefined\<close>; a boolean, a number, a string or an array has no property
  named \<^verbatim>\<open>id\<close>.
\<close>

fun prop_id :: "json \<Rightarrow> error + json option" where
  "prop_id JNull = Inl (TypeError (lit ''Cannot read properties of null (reading 'id')''))"
| "prop_id (JObj m) = Inr (m (lit ''id''))"
| "prop_id (JBool b) = Inr None"
| "prop_id (JNum n) = Inr None"
| "prop_id (JStr s) = Inr None"
| "prop_id (JArr xs) = Inr None"

text \<open>
  \<^verbatim>\<open>v === key\<close> where \<^verbatim>\<open>key\<close> is the result of \<^verbatim>\<open>parseInt\<close>: true only when
  \<^verbatim>\<open>v\<close> is a number equal to \<^verbatim>\<open>key\<close>; \<^verbatim>\<open>NaN\<close> equals nothing, a value of another
  type never equals a number, and no stored number is an infinity.
\<close>

fun strict_eq :: "json option \<Rightarrow> number \<Rightarrow> bool" where
  "strict_eq (Some (JNum n)) (Num k) = (n = k)"
| "strict_eq v key = False"

subsection \<open>parseInt\<close>

text \<open>
  White space and line terminators: TAB, LF, VT, FF, CR, SPACE, U+00A0, U+1680,
  U+2000 to U+200A, U+2028, U+2029, U+202F, U+205F, U+3000 and U+FEFF.
\<close>

definition is_ws :: "nat \<Rightarrow> bool" where
  "is_ws c = (c \<in> set [0x09, 0x0A, 0x0B, 0x0C, 0x0D, 0x20, 0xA0, 0x1680,
                        0x2000, 0x2001, 0x2002, 0x2003, 0x2004, 0x2005, 0x2006, 0x2007,
                        0x2008, 0x2009, 0x200A, 0x2028, 0x2029, 0x202F, 0x205F, 0x3000,
                        0xFEFF])"

text \<open>The value of a digit or letter: \<^verbatim>\<open>0\<close> to \<^verbatim>\<open>9\<close>, then \<^verbatim>\<open>a\<close> to \<^verbatim>\<open>z\<close> in either case.\<close>

definition digit_val :: "nat \<Rightarrow> nat option" where
  "digit_val c =
     (if 48 \<le> c \<and> c \<le> 57 then Some (c - 48)
      else if 97 \<le> c \<and> c \<le> 122 then Some (c - 87)
      else if 65 \<le> c \<and> c \<le> 90 then Some (c - 55)
      else None)"

definition is_digit :: "nat \<Rightarrow> nat \<Rightarrow> bool" where
  "is_digit R c = (case digit_val c of None \<Rightarrow> False | Some v \<Rightarrow> v < R)"

definition digits_value :: "nat \<Rightarrow> jstring \<Rightarrow> nat" where
  "digits_value R Z =
     foldl (\<lambda>a c. a * R + (case digit_val c of None \<Rightarrow> 0 | Some v \<Rightarrow> v)) 0 Z"

text \<open>
  The double nearest to a natural number, ties to the even significand; \<open>None\<close> when
  the number rounds beyond the largest double, to infinity. Below \<open>2\<^sup>5\<^sup>3\<close> every
  natural number is a double.
\<close>

fun bit_length :: "nat \<Rightarrow> nat" where
  "bit_length n = (if n = 0 then 0 else Suc (bit_length (n div 2)))"

declare bit_length.simps [simp del]

definition nearest_double :: "nat \<Rightarrow> nat option" where
  "nearest_double n =
     (if n < 2 ^ 53 then Some n
      else let e = bit_length n - 53;
               q = n div 2 ^ e;
               r = n mod 2 ^ e;
               h = 2 ^ (e - 1);
               m = (if h < r \<or> (r = h \<and> odd q) then q + 1 else q) * 2 ^ e
           in if 2 ^ 1024 \<le> m then None else Some m)"

text \<open>
  \<^verbatim>\<open>parseInt(s)\<close> without a radix, on a string: leading white space is skipped, one
  sign is read, a prefix \<^verbatim>\<open>0x\<close> or \<^verbatim>\<open>0X\<close> selects radix 16 (radix 10 otherwise), and
  the longest run of digits of that radix is the value, rounded to a double as Node.js
  does; no digit gives \<^verbatim>\<open>NaN\<close>.
\<close>

definition parseInt :: "jstring \<Rightarrow> number" where
  "parseInt inputString =
     (let S = dropWhile is_ws inputString;
          (negative, S1) = (case S of
                              c # t \<Rightarrow> if c = 0x2D then (True, t)
                                       else if c = 0x2B then (False, t) else (False, S)
                            | [] \<Rightarrow> (False, S));
          (R, S2) = (case S1 of
                       c # x # u \<Rightarrow> if c = 0x30 \<and> (x = 0x78 \<or> x = 0x58)
                                     then (16 :: nat, u) else (10, S1)
                     | _ \<Rightarrow> (10, S1));
          Z = takeWhile (is_digit R) S2
      in if Z = [] then NaN
         else case nearest_double (digits_value R Z) of
                None \<Rightarrow> if negative then NegInfinity else PosInfinity
              | Some v \<Rightarrow> Num (if negative then - int v else int v))"

section \<open>The storage file\<close>

text \<open>
  The text of a file is represented by what \<^verbatim>\<open>JSON.parse\<close> does on it: it throws a
  SyntaxError with a message, or it yields a JSON value. \<^verbatim>\<open>JSON.stringify\<close> of a JSON
  value is a text that parses back to that value.
\<close>

datatype file_text = Malformed jstring | Json json

fun JSON_parse :: "file_text \<Rightarrow> error + json" where
  "JSON_parse (Malformed m) = Inl (SyntaxError m)"
| "JSON_parse (Json v) = Inr v"

definition JSON_stringify :: "json \<Rightarrow> file_text" where
  "JSON_stringify v = Json v"

text \<open>
  The file at the repository's path: absent, present but unreadable (the read throws
  with the given message), or present with a text.
\<close>

datatype storage = Absent | Unreadable jstring | File file_text

text \<open>
  The world one repository acts on: its file, the texts written to it so far (oldest
  first) and the lines printed by \<^verbatim>\<open>console.error\<close>. Writes are taken to succeed.
\<close>

record world =
  disk :: storage
  writes :: "file_text list"
  console :: "jstring list"

text \<open>\<^verbatim>\<open>fs.existsSync\<close>, \<^verbatim>\<open>fs.readFileSync\<close> and \<^verbatim>\<open>fs.writeFileSync\<close> at the file's path.\<close>

definition existsSync :: "world \<Rightarrow> bool" where
  "existsSync w = (disk w \<noteq> Absent)"

definition readFileSync :: "jstring \<Rightarrow> world \<Rightarrow> error + file_text" where
  "readFileSync p w =
     (case disk w of
        Absent \<Rightarrow> Inl (Error (lit ''ENOENT: no such file or directory, open ''
                               @ [0x27] @ p @ [0x27]))
      | Unreadable m \<Rightarrow> Inl (Error m)
      | File t \<Rightarrow> Inr t)"

definition writeFileSync :: "file_text \<Rightarrow> world \<Rightarrow> world" where
  "writeFileSync t w = w\<lparr>disk := File t, writes := writes w @ [t]\<rparr>"

definition console_error :: "jstring \<Rightarrow> jstring \<Rightarrow> world \<Rightarrow> world" where
  "console_error a b w = w\<lparr>console := console w @ [a @ lit '' '' @ b]\<rparr>"

section \<open>DiagnosisRepository\<close>

text \<open>
  The methods keep their names, the private ones without their leading underscore;
  \<^verbatim>\<open>list\<close> is \<open>list_all_records\<close>. Each takes the world and returns the world it
  leaves, with its result or, where it can throw, with the error thrown.
\<close>

record repository =
  filePath :: jstring

text \<open>
  The constructor writes the text \<^verbatim>\<open>[]\<close> when the file is absent. The parent
  directory, which it creates first when missing, is not part of the world: it matters
  only to whether a write succeeds.
\<close>

definition ensureStorage :: "repository \<Rightarrow> world \<Rightarrow> world" where
  "ensureStorage r w = (if \<not> existsSync w then writeFileSync (Json (JArr [])) w else w)"

definition DiagnosisRepository :: "jstring \<Rightarrow> world \<Rightarrow> repository \<times> world" where
  "DiagnosisRepository p w = (let r = \<lparr>filePath = p\<rparr> in (r, ensureStorage r w))"

text \<open>
  \<^verbatim>\<open>_readAll\<close>: the \<^verbatim>\<open>try\<close> covers the read and the parse, the \<^verbatim>\<open>catch\<close> prints
  the message and yields the empty list; a parsed value that is not an array yields the
  empty list as well.
\<close>

definition readAll :: "repository \<Rightarrow> world \<Rightarrow> json list \<times> world" where
  "readAll r w =
     (case readFileSync (filePath r) w of
        Inl err \<Rightarrow>
          ([], console_error (lit ''Erro ao ler diagnosticos.json:'') (message err) w)
      | Inr txt \<Rightarrow>
          (case JSON_parse txt of
             Inl err \<Rightarrow>
               ([], console_error (lit ''Erro ao ler diagnosticos.json:'') (message err) w)
           | Inr data \<Rightarrow> (case data of JArr xs \<Rightarrow> (xs, w) | _ \<Rightarrow> ([], w))))"

definition writeAll :: "repository \<Rightarrow> json list \<Rightarrow> world \<Rightarrow> world" where
  "writeAll r xs w = writeFileSync (JSON_stringify (JArr xs)) w"

definition list_all_records :: "repository \<Rightarrow> world \<Rightarrow> json list \<times> world" where
  "list_all_records r w = readAll r w"


text \<open>
  \<^verbatim>\<open>Array.prototype.map\<close> and \<^verbatim>\<open>filter\<close> with a callback that may throw: the first
  throw abandons the traversal.
\<close>

fun map_throwing :: "('a \<Rightarrow> error + 'b) \<Rightarrow> 'a list \<Rightarrow> error + 'b list" where
  "map_throwing f [] = Inr []"
| "map_throwing f (x # xs) =
     (case f x of
        Inl e \<Rightarrow> Inl e
      | Inr y \<Rightarrow> (case map_throwing f xs of Inl e \<Rightarrow> Inl e | Inr ys \<Rightarrow> Inr (y # ys)))"

fun filter_throwing :: "('a \<Rightarrow> error + bool) \<Rightarrow> 'a list \<Rightarrow> error + 'a list" where
  "filter_throwing p [] = Inr []"
| "filter_throwing p (x # xs) =
     (case p x of
        Inl e \<Rightarrow> Inl e
      | Inr b \<Rightarrow> (case filter_throwing p xs of
                    Inl e \<Rightarrow> Inl e
                  | Inr ys \<Rightarrow> Inr (if b then x # ys else ys)))"


text \<open>The callback of \<^verbatim>\<open>delete\<close>: \<^verbatim>\<open>d.id !== key\<close>.\<close>

definition keep_record :: "number \<Rightarrow> json \<Rightarrow> error + bool" where
  "keep_record key d =
     (case prop_id d of Inl e \<Rightarrow> Inl e | Inr v \<Rightarrow> Inr (\<not> strict_eq v key))"


definition delete :: "repository \<Rightarrow> jstring \<Rightarrow> world \<Rightarrow> (error + bool) \<times> world" where
  "delete r ident w =
     (let (xs, w1) = readAll r w;
          key = parseInt ident
      in case filter_throwing (keep_record key) xs of
           Inl e \<Rightarrow> (Inl e, w1)
         | Inr filtered \<Rightarrow> (Inr True, writeAll r filtered w1))"

text \<open>The persisted collection: what \<^verbatim>\<open>list()\<close> returns in a world.\<close>

definition collection :: "repository \<Rightarrow> world \<Rightarrow> json list" where
  "collection r w = fst (list_all_records r w)"

subsection \<open>Sequences of operations\<close>






subsection \<open>Fixtures\<close>

text \<open>
  The repository of the application and worlds with empty logs, for the concrete
  instances below: a world whose file is in a given state, and one whose file holds a
  given array of records.
\<close>

definition repo :: repository where
  "repo = \<lparr>filePath = lit ''public/diagnosticos.json''\<rparr>"

definition holding :: "storage \<Rightarrow> world" where
  "holding f = \<lparr>disk = f, writes = [], console = []\<rparr>"


section \<open>PredictionClient\<close>

text \<open>
  One call of \<^verbatim>\<open>axios.post(url, body, { timeout })\<close>. The transport is a parameter: it
  answers a request with the response's \<^verbatim>\<open>data\<close>, or rejects with an error whose
  \<^verbatim>\<open>message\<close> is given.
\<close>

record request =
  url :: jstring
  body :: "json option"
  timeout :: nat

type_synonym transport = "request \<Rightarrow> jstring + json"

text \<open>
  Both methods are \<^verbatim>\<open>async\<close>: a call never throws to its caller, it returns a promise,
  and a \<^verbatim>\<open>throw\<close> in the body rejects that promise. Each method is modelled by the
  settlement of its promise together with the requests it issued, in order.
\<close>

datatype promise = Resolved json | Rejected error

record client =
  baseUrl :: jstring

definition PredictionClient :: "jstring \<Rightarrow> client" where
  "PredictionClient b =
     \<lparr>baseUrl = (if b \<noteq> [] \<and> last b = 0x2F then butlast b else b)\<rparr>"

datatype js_type = TUndefined | TObject | TBoolean | TNumber | TString

fun typeof :: "json option \<Rightarrow> js_type" where
  "typeof None = TUndefined"
| "typeof (Some JNull) = TObject"
| "typeof (Some (JBool b)) = TBoolean"
| "typeof (Some (JNum n)) = TNumber"
| "typeof (Some (JStr s)) = TString"
| "typeof (Some (JArr xs)) = TObject"
| "typeof (Some (JObj m)) = TObject"

text \<open>\<^verbatim>\<open>!payload\<close> is the negation of this.\<close>

fun truthy :: "json option \<Rightarrow> bool" where
  "truthy None = False"
| "truthy (Some JNull) = False"
| "truthy (Some (JBool b)) = b"
| "truthy (Some (JNum n)) = (n \<noteq> 0)"
| "truthy (Some (JStr s)) = (s \<noteq> [])"
| "truthy (Some (JArr xs)) = True"
| "truthy (Some (JObj m)) = True"

text \<open>The messages; their accented letters are the code units U+00E1, U+00E7, U+00E3.\<close>

definition invalid_payload_message :: jstring where
  "invalid_payload_message =
     lit ''Payload inv'' @ [0xE1] @ lit ''lido para predi'' @ [0xE7, 0xE3] @ lit ''o.''"

definition predict_failure_prefix :: jstring where
  "predict_failure_prefix =
     lit ''Falha ao chamar servi'' @ [0xE7] @ lit ''o de predi'' @ [0xE7, 0xE3] @ lit ''o: ''"

definition diagnose :: "transport \<Rightarrow> client \<Rightarrow> json option \<Rightarrow> promise \<times> request list" where
  "diagnose post c payload =
     (if \<not> truthy payload \<or> typeof payload \<noteq> TObject
      then (Rejected (Error invalid_payload_message), [])
      else let req = \<lparr>url = baseUrl c @ lit ''/predict'', body = payload, timeout = 8000\<rparr>
           in case post req of
                Inr data \<Rightarrow> (Resolved data, [req])
              | Inl m \<Rightarrow> (Rejected (Error (predict_failure_prefix @ m)), [req]))"

definition retrain :: "transport \<Rightarrow> client \<Rightarrow> promise \<times> request list" where
  "retrain post c =
     (let req = \<lparr>url = baseUrl c @ lit ''/train'', body = Some (JObj Map.empty),
                 timeout = 20000\<rparr>
      in case post req of
           Inr data \<Rightarrow> (Resolved data, [req])
         | Inl m \<Rightarrow> (Rejected (Error (lit ''Falha ao re-treinar modelo: '' @ m)), [req]))"

section \<open>Reading and writing the collection\<close>

lemma fst_readAll:
  "fst (readAll r w) = (case disk w of File (Json (JArr xs)) \<Rightarrow> xs | _ \<Rightarrow> [])"
  by (simp add: readAll_def readFileSync_def
      split: storage.splits file_text.splits json.splits)

lemma disk_readAll: "disk (snd (readAll r w)) = disk w"
  by (simp add: readAll_def readFileSync_def console_error_def
      split: storage.splits sum.splits json.splits)


lemma collection_eq:
  "collection r w = (case disk w of File (Json (JArr xs)) \<Rightarrow> xs | _ \<Rightarrow> [])"
  by (simp add: collection_def list_all_records_def fst_readAll)

lemma fst_readAll_collection: "fst (readAll r w) = collection r w"
  by (simp add: collection_def list_all_records_def)



lemma collection_readAll: "collection r (snd (readAll r w)) = collection r w"
  by (simp add: collection_eq disk_readAll)

lemma collection_writeAll: "collection r (writeAll r xs w) = xs"
  by (simp add: collection_eq writeAll_def writeFileSync_def JSON_stringify_def)

lemma disk_writeAll: "disk (writeAll r xs w) = File (Json (JArr xs))"
  by (simp add: writeAll_def writeFileSync_def JSON_stringify_def)




lemma delete_eq:
  "delete r i w =
     (case filter_throwing (keep_record (parseInt i)) (collection r w) of
        Inl e \<Rightarrow> (Inl e, snd (readAll r w))
      | Inr ys \<Rightarrow> (Inr True, writeAll r ys (snd (readAll r w))))"
  by (simp add: delete_def Let_def split_beta fst_readAll_collection)

section \<open>Traversals that may throw\<close>

lemma map_throwing_Inr:
  "map_throwing f xs = Inr ys \<Longrightarrow> map f xs = map Inr ys"
  by (induction xs arbitrary: ys) (auto split: sum.splits)



lemma filter_throwing_Inr:
  "filter_throwing p xs = Inr ys \<Longrightarrow> ys = filter (\<lambda>x. p x = Inr True) xs"
  by (induction xs arbitrary: ys) (auto split: sum.splits)

lemma filter_throwing_total:
  "\<forall>x \<in> set xs. \<exists>b. p x = Inr b
   \<Longrightarrow> filter_throwing p xs = Inr (filter (\<lambda>x. p x = Inr True) xs)"
proof (induction xs)
  case Nil
  then show ?case by simp
next
  case (Cons a xs)
  then obtain b where "p a = Inr b" by auto
  with Cons show ?case by simp
qed



section \<open>Matching by identifier\<close>


lemma prop_id_throws_iff: "(\<exists>e. prop_id d = Inl e) = (d = JNull)"
  by (cases d) simp_all












section \<open>Uniqueness of identifiers along a run\<close>




section \<open>Messages and sample identifiers\<close>

lemma failure_is_not_invalid: "predict_failure_prefix @ m \<noteq> invalid_payload_message"
  by (simp add: predict_failure_prefix_def invalid_payload_message_def lit_def)



lemma parseInt_5: "parseInt (lit ''5'') = Num 5"
  by (simp add: parseInt_def lit_def is_ws_def is_digit_def digit_val_def digits_value_def
      nearest_double_def)


lemma parseInt_123: "parseInt (lit ''123'') = Num 123"
  by (simp add: parseInt_def lit_def is_ws_def is_digit_def digit_val_def digits_value_def
      nearest_double_def)


text \<open>Sample values of \<^verbatim>\<open>parseInt\<close>, as Node.js computes them.\<close>

lemma parseInt_skips_no_break_space: "parseInt (0xA0 # lit ''12'') = Num 12"
  by (simp add: parseInt_def lit_def is_ws_def is_digit_def digit_val_def digits_value_def
      nearest_double_def)

lemma bit_length_54: "bit_length 9007199254740993 = 54"
  by (simp add: bit_length.simps)

lemma parseInt_rounds_to_double:
  "parseInt (lit ''9007199254740993'') = Num 9007199254740992"
  by (simp add: parseInt_def lit_def is_ws_def is_digit_def digit_val_def digits_value_def
      nearest_double_def bit_length_54 Let_def)

lemma parseInt_stops_at_exponent: "parseInt (lit ''1e+21'') = Num 1"
  by (simp add: parseInt_def lit_def is_ws_def is_digit_def digit_val_def digits_value_def
      nearest_double_def)

lemma parseInt_hexadecimal: "parseInt (lit ''-0x1F'') = Num (- 31)"
  by (simp add: parseInt_def lit_def is_ws_def is_digit_def digit_val_def digits_value_def
      nearest_double_def)

lemma parseInt_no_digits: "parseInt (lit ''abc'') = NaN"
  by (simp add: parseInt_def lit_def is_ws_def is_digit_def digit_val_def digits_value_def
      nearest_double_def)

section \<open>The record store\<close>

subsection \<open>Identifier of a created record\<close>



subsection \<open>Identifiers under update\<close>




subsection \<open>Uniqueness of identifiers\<close>




subsection \<open>Fail-open reads\<close>

text \<open>
  C6. Whenever the file is missing, unreadable, holds a text that does not parse, or
  holds a text that parses to something other than an array, \<^verbatim>\<open>list()\<close> returns the
  empty collection and leaves the file as it was. The result of \<^verbatim>\<open>list()\<close> has no
  error branch: both throws of the read are caught inside \<^verbatim>\<open>_readAll\<close>.
\<close>

theorem C6_list_fail_open:
  "disk w = Absent \<or> (\<exists>m. disk w = Unreadable m) \<or> (\<exists>m. disk w = File (Malformed m))
     \<or> (\<exists>v. disk w = File (Json v) \<and> (\<forall>xs. v \<noteq> JArr xs))
   \<Longrightarrow> fst (list_all_records r w) = [] \<and> disk (snd (list_all_records r w)) = disk w"
  by (auto simp: list_all_records_def fst_readAll disk_readAll split: json.splits)

theorem C6_list_fail_open_witness:
  "fst (list_all_records repo (holding (File (Json (JStr (lit ''x'')))))) = []
   \<and> fst (list_all_records repo
            (holding (File (Malformed (lit ''Unexpected end of JSON input''))))) = []
   \<and> fst (list_all_records repo (holding (Unreadable (lit ''EACCES: permission denied'')))) = []
   \<and> fst (list_all_records repo (holding Absent)) = []"
  using C6_list_fail_open [of "holding (File (Json (JStr (lit ''x''))))" "repo"]
        C6_list_fail_open
          [of "holding (File (Malformed (lit ''Unexpected end of JSON input'')))" "repo"]
        C6_list_fail_open [of "holding (Unreadable (lit ''EACCES: permission denied''))" "repo"]
        C6_list_fail_open [of "holding Absent" "repo"]
  by (simp add: holding_def)

subsection \<open>Identifiers that match no record\<close>




subsection \<open>Deleting twice\<close>

text \<open>
  C8. For every identifier and every state of the storage, \<^verbatim>\<open>delete(id)\<close> called twice
  in succession leaves the same persisted collection, and the same file, as calling it
  once.
\<close>

theorem C8_delete_idempotent:
  "collection r (snd (delete r ident (snd (delete r ident w))))
     = collection r (snd (delete r ident w))
   \<and> disk (snd (delete r ident (snd (delete r ident w)))) = disk (snd (delete r ident w))"
proof (cases "filter_throwing (keep_record (parseInt ident)) (collection r w)")
  case (Inl e)
  then show ?thesis
    by (simp add: delete_eq collection_readAll disk_readAll)
next
  case (Inr ys)
  then have ys: "ys = filter (\<lambda>x. keep_record (parseInt ident) x = Inr True) (collection r w)"
    by (rule filter_throwing_Inr)
  have "\<forall>x \<in> set ys. \<exists>b. keep_record (parseInt ident) x = Inr b"
    using ys by auto
  then have "filter_throwing (keep_record (parseInt ident)) ys
        = Inr (filter (\<lambda>x. keep_record (parseInt ident) x = Inr True) ys)"
    by (rule filter_throwing_total)
  then have again: "filter_throwing (keep_record (parseInt ident)) ys = Inr ys"
    using ys by simp
  show ?thesis
    by (simp add: delete_eq Inr collection_writeAll again disk_writeAll)
qed

subsection \<open>Strict comparison with the parsed identifier\<close>



section \<open>The prediction gateway\<close>

text \<open>
  C4 (as the code has it). For every payload that is neither an object nor an array
  (\<^verbatim>\<open>undefined\<close>, \<^verbatim>\<open>null\<close>, a boolean, a number or a string), the promise that
  \<^verbatim>\<open>diagnose(payload)\<close> returns is rejected with the invalid-payload error and no
  request has been issued. The check is \<^verbatim>\<open>typeof payload !== 'object'\<close>, which an
  array passes like a mapping.
\<close>

theorem C4_invalid_payload_rejected_before_any_call:
  "(\<forall>m. payload \<noteq> Some (JObj m)) \<Longrightarrow> (\<forall>xs. payload \<noteq> Some (JArr xs))
   \<Longrightarrow> diagnose post c payload = (Rejected (Error invalid_payload_message), [])"
proof (cases payload)
  case None
  then show ?thesis by (simp add: diagnose_def)
next
  case (Some v)
  assume "\<forall>m. payload \<noteq> Some (JObj m)" "\<forall>xs. payload \<noteq> Some (JArr xs)"
  with Some show ?thesis by (cases v) (simp_all add: diagnose_def)
qed

theorem C4_invalid_payload_witness:
  "diagnose (\<lambda>q. Inr JNull) (PredictionClient (lit ''http://localhost:5000'')) (Some JNull)
     = (Rejected (Error invalid_payload_message), [])
   \<and> diagnose (\<lambda>q. Inr JNull) (PredictionClient (lit ''http://localhost:5000''))
       (Some (JStr (lit ''aaa'')))
     = (Rejected (Error invalid_payload_message), [])"
  using C4_invalid_payload_rejected_before_any_call
          [of "Some JNull" "\<lambda>q. Inr JNull" "PredictionClient (lit ''http://localhost:5000'')"]
        C4_invalid_payload_rejected_before_any_call
          [of "Some (JStr (lit ''aaa''))" "\<lambda>q. Inr JNull"
              "PredictionClient (lit ''http://localhost:5000'')"]
  by simp

text \<open>
  The claim as stated fails: the array \<^verbatim>\<open>[1, 2]\<close> is not a mapping, yet
  \<^verbatim>\<open>diagnose([1, 2])\<close> is not rejected as invalid: it posts the array to
  \<^verbatim>\<open>{base}/predict\<close> and resolves with the response.
\<close>

theorem C4_array_payload_is_posted:
  "diagnose (\<lambda>q. Inr (JBool True)) (PredictionClient (lit ''http://localhost:5000''))
     (Some (JArr [JNum 1, JNum 2]))
   = (Resolved (JBool True),
      [\<lparr>url = lit ''http://localhost:5000/predict'', body = Some (JArr [JNum 1, JNum 2]),
        timeout = 8000\<rparr>])"
  by (simp add: diagnose_def PredictionClient_def lit_def)

text \<open>
  C10. \<^verbatim>\<open>diagnose(payload)\<close> fails with the invalid-payload error exactly when
  \<^verbatim>\<open>payload\<close> is falsy or \<^verbatim>\<open>typeof payload\<close> is not \<^verbatim>\<open>'object'\<close>. An array, the
  empty one included, passes the check: the outcome is not the invalid-payload error and
  one request to \<^verbatim>\<open>{base}/predict\<close> carrying the array has been issued.
\<close>

theorem C10_arrays_pass_the_payload_check:
  "(fst (diagnose post c payload) = Rejected (Error invalid_payload_message))
     = (\<not> truthy payload \<or> typeof payload \<noteq> TObject)
   \<and> fst (diagnose post c (Some (JArr xs))) \<noteq> Rejected (Error invalid_payload_message)
   \<and> snd (diagnose post c (Some (JArr xs)))
       = [\<lparr>url = baseUrl c @ lit ''/predict'', body = Some (JArr xs), timeout = 8000\<rparr>]"
  by (simp add: diagnose_def Let_def failure_is_not_invalid split: sum.splits)

theorem C10_empty_array_witness:
  "fst (diagnose (\<lambda>q. Inr (JStr (lit ''ok''))) (PredictionClient (lit ''http://localhost:5000''))
         (Some (JArr [])))
     = Resolved (JStr (lit ''ok''))
   \<and> snd (diagnose (\<lambda>q. Inr (JStr (lit ''ok''))) (PredictionClient (lit ''http://localhost:5000''))
         (Some (JArr [])))
     = [\<lparr>url = lit ''http://localhost:5000/predict'', body = Some (JArr []), timeout = 8000\<rparr>]
   \<and> fst (diagnose (\<lambda>q. Inr (JStr (lit ''ok''))) (PredictionClient (lit ''http://localhost:5000''))
         (Some (JNum 0)))
     = Rejected (Error invalid_payload_message)"
  using C10_arrays_pass_the_payload_check
          [of "\<lambda>q. Inr (JStr (lit ''ok''))" "PredictionClient (lit ''http://localhost:5000'')"
              "Some (JNum 0)" "[]"]
  by (simp add: PredictionClient_def diagnose_def lit_def)

text \<open>
  C5. \<^verbatim>\<open>retrain()\<close> issues exactly one request, to \<^verbatim>\<open>{base}/train\<close> with body
  \<^verbatim>\<open>{}\<close> and timeout 20000 ms. When the transport rejects with a message, the outcome
  is an error whose message is \<^verbatim>\<open>Falha ao re-treinar modelo: \<close> followed by that
  message; for the message \<^verbatim>\<open>erro\<close> it is exactly
  \<^verbatim>\<open>Falha ao re-treinar modelo: erro\<close>.
\<close>

theorem C5_retrain_one_call_and_message:
  "snd (retrain post c)
     = [\<lparr>url = baseUrl c @ lit ''/train'', body = Some (JObj Map.empty), timeout = 20000\<rparr>]
   \<and> (\<forall>m. post \<lparr>url = baseUrl c @ lit ''/train'', body = Some (JObj Map.empty),
                 timeout = 20000\<rparr> = Inl m
        \<longrightarrow> fst (retrain post c)
            = Rejected (Error (lit ''Falha ao re-treinar modelo: '' @ m)))
   \<and> (post \<lparr>url = baseUrl c @ lit ''/train'', body = Some (JObj Map.empty),
             timeout = 20000\<rparr> = Inl (lit ''erro'')
        \<longrightarrow> fst (retrain post c) = Rejected (Error (lit ''Falha ao re-treinar modelo: erro'')))"
  by (simp add: retrain_def Let_def lit_def split: sum.splits)

theorem C5_retrain_witness:
  "snd (retrain (\<lambda>q. Inl (lit ''erro'')) (PredictionClient (lit ''http://localhost:5000/'')))
     = [\<lparr>url = lit ''http://localhost:5000/train'', body = Some (JObj Map.empty),
         timeout = 20000\<rparr>]
   \<and> fst (retrain (\<lambda>q. Inl (lit ''erro'')) (PredictionClient (lit ''http://localhost:5000/'')))
     = Rejected (Error (lit ''Falha ao re-treinar modelo: erro''))"
  using C5_retrain_one_call_and_message
          [of "\<lambda>q. Inl (lit ''erro'')" "PredictionClient (lit ''http://localhost:5000/'')"]
  by (simp add: PredictionClient_def lit_def)

end
